theory Spec2Isabelle
  imports Main
begin

section \<open>Values exchanged with the framework and the ORM\<close>

text \<open>
  The program is a single TypeScript module, \<^verbatim>\<open>src/index.ts\<close>. It builds an Express router
  whose handlers delegate to a Sequelize model. Express, Sequelize and \<^verbatim>\<open>JSON.parse\<close> are
  external: the model's methods and the JSON parser are parameters of the embedding, and
  every call that can throw returns a sum whose left side is the error thrown.

  JavaScript numbers are embedded as mathematical integers. The source computes on
  IEEE doubles, which agree with the integers as long as every operand and result is a
  safe integer (\<open>safe_integer\<close> below); statements about arithmetic carry that as a
  hypothesis. Fractional numbers are not covered. Strings are lists of 8-bit characters:
  Node refuses header values with code units above 255.
\<close>

datatype json =
    JNull
  | JBool bool
  | JNum int
  | JStr string
  | JArr "json list"
  | JObj "(string \<times> json) list"

datatype error =
    Error string
  | SyntaxError string
  | TypeError string
  | Unmodelled string

text \<open>
  \<^verbatim>\<open>Number.MAX_SAFE_INTEGER\<close> and \<^verbatim>\<open>Number.isSafeInteger\<close>: the integers on which
  addition and subtraction of doubles are exact and a template literal prints all digits.
\<close>

definition MAX_SAFE_INTEGER :: int where
  "MAX_SAFE_INTEGER = 9007199254740991"

definition safe_integer :: "int \<Rightarrow> bool" where
  "safe_integer i = (- MAX_SAFE_INTEGER \<le> i \<and> i \<le> MAX_SAFE_INTEGER)"

subsection \<open>String primitives\<close>

text \<open>The white space and line terminators of ECMAScript that fit in eight bits.\<close>

definition is_ws :: "char \<Rightarrow> bool" where
  "is_ws c = (c \<in> {CHR 0x09, CHR 0x0A, CHR 0x0B, CHR 0x0C, CHR 0x0D, CHR 0x20, CHR 0xA0})"

text \<open>\<^verbatim>\<open>String.prototype.trim\<close>.\<close>

definition trim :: "string \<Rightarrow> string" where
  "trim s = rev (dropWhile is_ws (rev (dropWhile is_ws s)))"

text \<open>\<^verbatim>\<open>s.split(c)\<close> for a one-character separator: the empty string gives one empty piece.\<close>

fun split_str :: "char \<Rightarrow> string \<Rightarrow> string list" where
  "split_str c [] = [[]]"
| "split_str c (x # xs) =
     (if x = c then [] # split_str c xs
      else (case split_str c xs of
              [] \<Rightarrow> [[x]]
            | y # ys \<Rightarrow> (x # y) # ys))"

text \<open>\<^verbatim>\<open>Array.prototype.join\<close>.\<close>

fun join :: "string \<Rightarrow> string list \<Rightarrow> string" where
  "join sep [] = []"
| "join sep [x] = x"
| "join sep (x # y # ys) = x @ sep @ join sep (y # ys)"

text \<open>
  The decimal rendering of an integer, as a template literal produces it for a safe
  integer (from 1e21 on the source prints an exponent).
\<close>

definition digit_char :: "nat \<Rightarrow> char" where
  "digit_char d = ''0123456789'' ! (d mod 10)"

function show_nat :: "nat \<Rightarrow> string" where
  "show_nat n = (if n < 10 then [digit_char n] else show_nat (n div 10) @ [digit_char (n mod 10)])"
  by pat_completeness auto
termination
  by (relation "measure (\<lambda>n. n)") auto

declare show_nat.simps [simp del]

definition show_int :: "int \<Rightarrow> string" where
  "show_int i = (if i < 0 then CHR ''-'' # show_nat (nat (- i)) else show_nat (nat i))"

subsection \<open>Requests and responses\<close>

text \<open>
  A header of a Node response holds a string, a number or an array of strings. Header names
  stand for their case-normalised form.
\<close>

datatype header_value = HString string | HNumber int | HArray "string list"

record response =
  statusCode :: nat
  headers :: "string \<Rightarrow> header_value option"
  body :: "json option"

text \<open>A response as Node creates it: status 200, nothing sent.\<close>

definition new_response :: "(string \<Rightarrow> header_value option) \<Rightarrow> response" where
  "new_response hs = \<lparr>statusCode = 200, headers = hs, body = None\<rparr>"

definition res_getHeader :: "response \<Rightarrow> string \<Rightarrow> header_value option" where
  "res_getHeader res name = headers res name"

text \<open>\<^verbatim>\<open>res.header(name, value)\<close>, also called \<^verbatim>\<open>res.set\<close>.\<close>

definition res_header :: "response \<Rightarrow> string \<Rightarrow> string \<Rightarrow> response" where
  "res_header res name v = res\<lparr>headers := (headers res)(name \<mapsto> HString v)\<rparr>"

definition res_set :: "response \<Rightarrow> string \<Rightarrow> string \<Rightarrow> response" where
  "res_set = res_header"

definition res_status :: "response \<Rightarrow> nat \<Rightarrow> response" where
  "res_status res code = res\<lparr>statusCode := code\<rparr>"

text \<open>\<^verbatim>\<open>res.json(v)\<close> sends \<open>v\<close> with the status the response has at that moment.\<close>

definition res_json :: "response \<Rightarrow> json \<Rightarrow> response" where
  "res_json res v = res\<lparr>body := Some v\<rparr>"

text \<open>
  The parts of a request the handlers read. Query parameters are absent or strings.
\<close>

record request =
  query :: "string \<Rightarrow> string option"
  params_id :: string
  req_body :: json

text \<open>
  A handler mutates the response and may call \<^verbatim>\<open>next(error)\<close>: it returns the response
  as it leaves it, and the error it forwarded, if any.
\<close>

type_synonym handler = "request \<Rightarrow> response \<Rightarrow> response \<times> error option"

subsection \<open>The Sequelize model\<close>

record find_options =
  offset :: int
  limit :: int
  order_opt :: "json list"
  where_opt :: json
  raw :: bool

text \<open>
  The five static methods the handlers call. \<open>findByPk\<close> takes the key and the
  \<^verbatim>\<open>raw\<close> flag and returns \<open>None\<close> for \<^verbatim>\<open>null\<close>; \<open>model_create\<close> the values and the
  \<^verbatim>\<open>raw\<close> flag; \<open>model_update\<close> the values, the \<^verbatim>\<open>where\<close> object and the
  \<^verbatim>\<open>returning\<close> flag; \<open>model_destroy\<close> the \<^verbatim>\<open>where\<close> object.
\<close>

record model =
  findAndCountAll :: "find_options \<Rightarrow> error + (nat \<times> json list)"
  findByPk :: "string \<Rightarrow> bool \<Rightarrow> error + json option"
  model_create :: "json \<Rightarrow> bool \<Rightarrow> error + json"
  model_update :: "json \<Rightarrow> json \<Rightarrow> bool \<Rightarrow> error + json"
  model_destroy :: "json \<Rightarrow> error + nat"

section \<open>Header normalisation\<close>

definition Content_Range :: string where
  "Content_Range = ''Content-Range''"

definition Expose_Headers :: string where
  "Expose_Headers = ''Access-Control-Expose-Headers''"

definition Allow_Headers :: string where
  "Allow_Headers = ''Access-Control-Allow-Headers''"

text \<open>
  \<^verbatim>\<open>res.getHeader(name) || ""\<close>: an absent header, the empty string and the number 0 are
  falsy; every array is truthy.
\<close>

definition or_empty :: "header_value option \<Rightarrow> header_value" where
  "or_empty v =
     (case v of
        None \<Rightarrow> HString []
      | Some (HString s) \<Rightarrow> HString s
      | Some (HNumber n) \<Rightarrow> (if n = 0 then HString [] else HNumber n)
      | Some (HArray xs) \<Rightarrow> HArray xs)"

text \<open>\<^verbatim>\<open>typeof rawValue === "string"\<close>.\<close>

definition is_string :: "header_value \<Rightarrow> bool" where
  "is_string v = (case v of HString s \<Rightarrow> True | HNumber n \<Rightarrow> False | HArray xs \<Rightarrow> False)"

text \<open>\<^verbatim>\<open>rawValue.split(",").map(header => header.trim())\<close>.\<close>

definition header_entries :: "string \<Rightarrow> string list" where
  "header_entries rawValue = map trim (split_str CHR '','' rawValue)"

text \<open>
  The value the loop body writes back for a string: the entries, with
  \<^verbatim>\<open>Content-Range\<close> pushed when \<^verbatim>\<open>includes\<close> does not find it, joined by \<^verbatim>\<open>", "\<close>.
\<close>

definition normalise :: "string \<Rightarrow> string" where
  "normalise rawValue =
     (let hs = header_entries rawValue;
          hs' = (if Content_Range \<in> set hs then hs else hs @ [Content_Range])
      in join '', '' hs')"

text \<open>
  The loop of \<^verbatim>\<open>appendHeaders\<close> over the header names. A value that is not a string
  leaves the loop and the function (\<^verbatim>\<open>return next()\<close>). Every path ends in \<^verbatim>\<open>next()\<close>
  without an error, so the function is the response it leaves.
\<close>

fun appendHeaders_loop :: "string list \<Rightarrow> response \<Rightarrow> response" where
  "appendHeaders_loop [] res = res"
| "appendHeaders_loop (name # names) res =
     (case or_empty (res_getHeader res name) of
        HString rawValue \<Rightarrow> appendHeaders_loop names (res_header res name (normalise rawValue))
      | HNumber n \<Rightarrow> res
      | HArray xs \<Rightarrow> res)"

definition appendHeaders :: "response \<Rightarrow> response" where
  "appendHeaders res = appendHeaders_loop [Expose_Headers, Allow_Headers] res"

section \<open>The handlers\<close>

text \<open>\<^verbatim>\<open>p ? f(p) : d\<close> on a query parameter: absent and empty are falsy.\<close>

definition if_given :: "string option \<Rightarrow> (string \<Rightarrow> error + 'a) \<Rightarrow> 'a \<Rightarrow> error + 'a" where
  "if_given p f d = (case p of None \<Rightarrow> Inr d | Some s \<Rightarrow> (if s = [] then Inr d else f s))"

text \<open>
  \<^verbatim>\<open>const [from, to] = ...\<close> on a parsed value. Destructuring \<^verbatim>\<open>null\<close>, a boolean, a
  number or an object throws a TypeError. On an array that starts with two numbers it
  binds them. On the remaining shapes (a string, a shorter array, elements that are not
  numbers) the source goes on with JavaScript coercions that this embedding does not
  cover; they are marked \<open>Unmodelled\<close>.
\<close>

fun destructure_range :: "json \<Rightarrow> error + (int \<times> int)" where
  "destructure_range (JArr (JNum from # JNum to # rest)) = Inr (from, to)"
| "destructure_range JNull = Inl (TypeError ''object null is not iterable'')"
| "destructure_range (JBool b) = Inl (TypeError ''boolean is not iterable'')"
| "destructure_range (JNum n) = Inl (TypeError ''number is not iterable'')"
| "destructure_range (JObj kvs) = Inl (TypeError ''object is not iterable'')"
| "destructure_range v = Inl (Unmodelled ''range'')"

definition parse_range :: "(string \<Rightarrow> error + json) \<Rightarrow> string \<Rightarrow> error + (int \<times> int)" where
  "parse_range JSON_parse s =
     (case JSON_parse s of Inl e \<Rightarrow> Inl e | Inr v \<Rightarrow> destructure_range v)"

text \<open>
  The argument of \<^verbatim>\<open>findAndCountAll\<close>, in the order the source evaluates it: the range,
  then the sort, then the filter; the first parse that throws ends the handler. The limit
  and the numbers of \<open>content_range\<close> below are the source's values when the operands and
  the results are safe integers; beyond that range the source rounds and this embedding
  does not.
\<close>

definition list_options :: "(string \<Rightarrow> error + json) \<Rightarrow> request \<Rightarrow> error + find_options" where
  "list_options JSON_parse req =
     (case if_given (query req ''range'') (parse_range JSON_parse) (0, 100) of
        Inl e \<Rightarrow> Inl e
      | Inr (from, to) \<Rightarrow>
          (case if_given (query req ''sort'') JSON_parse (JArr [JStr ''id'', JStr ''ASC'']) of
             Inl e \<Rightarrow> Inl e
           | Inr srt \<Rightarrow>
               (case if_given (query req ''filter'') JSON_parse (JObj []) of
                  Inl e \<Rightarrow> Inl e
                | Inr flt \<Rightarrow>
                    Inr \<lparr>offset = from, limit = to - from + 1, order_opt = [srt],
                         where_opt = flt, raw = True\<rparr>)))"

definition content_range :: "int \<Rightarrow> nat \<Rightarrow> nat \<Rightarrow> string" where
  "content_range from returned totalCount =
     show_int from @ ''-'' @ show_int (from + int returned) @ ''/'' @ show_int (int totalCount)"

definition getList ::
  "(string \<Rightarrow> error + json) \<Rightarrow> model \<Rightarrow> (json list \<Rightarrow> error + json) \<Rightarrow> handler" where
  "getList JSON_parse mdl afterHook req res =
     (case list_options JSON_parse req of
        Inl e \<Rightarrow> (res, Some e)
      | Inr opts \<Rightarrow>
          (case findAndCountAll mdl opts of
             Inl e \<Rightarrow> (res, Some e)
           | Inr (count, rows) \<Rightarrow>
               (let res1 = res_set res Content_Range
                             (content_range (offset opts) (length rows) count)
                in case afterHook rows of
                     Inl e \<Rightarrow> (res1, Some e)
                   | Inr v \<Rightarrow> (res_json res1 v, None))))"

definition not_found :: json where
  "not_found = JObj [(''error'', JStr ''Record not found'')]"

definition getOne :: "model \<Rightarrow> (json \<Rightarrow> error + json) \<Rightarrow> handler" where
  "getOne mdl afterHook req res =
     (case findByPk mdl (params_id req) True of
        Inl e \<Rightarrow> (res, Some e)
      | Inr None \<Rightarrow> (res_json (res_status res 404) not_found, None)
      | Inr (Some record) \<Rightarrow>
          (case afterHook record of
             Inl e \<Rightarrow> (res, Some e)
           | Inr v \<Rightarrow> (res_json res v, None)))"

definition create :: "model \<Rightarrow> handler" where
  "create mdl req res =
     (case model_create mdl (req_body req) True of
        Inl e \<Rightarrow> (res, Some e)
      | Inr record \<Rightarrow> (res_json (res_status res 201) record, None))"

definition update :: "model \<Rightarrow> handler" where
  "update mdl req res =
     (case findByPk mdl (params_id req) False of
        Inl e \<Rightarrow> (res, Some e)
      | Inr None \<Rightarrow> (res_json (res_status res 404) not_found, None)
      | Inr (Some record) \<Rightarrow>
          (case model_update mdl (req_body req) (JObj [(''id'', JStr (params_id req))]) True of
             Inl e \<Rightarrow> (res, Some e)
           | Inr result \<Rightarrow> (res_json res result, None)))"

definition destroy :: "model \<Rightarrow> handler" where
  "destroy mdl req res =
     (case model_destroy mdl (JObj [(''id'', JStr (params_id req))]) of
        Inl e \<Rightarrow> (res, Some e)
      | Inr n \<Rightarrow> (res_json res (JObj [(''id'', JStr (params_id req))]), None))"

section \<open>The route-set generator\<close>

definition GET_LIST :: string where "GET_LIST = ''GET_LIST''"
definition GET_ONE :: string where "GET_ONE = ''GET_ONE''"
definition CREATE :: string where "CREATE = ''CREATE''"
definition UPDATE :: string where "UPDATE = ''UPDATE''"
definition DELETE :: string where "DELETE = ''DELETE''"

text \<open>\<^verbatim>\<open>Object.values(ActionType)\<close>, in the order of the declaration.\<close>

definition ActionType_values :: "string list" where
  "ActionType_values = [GET_LIST, GET_ONE, CREATE, UPDATE, DELETE]"

record options =
  actionTypes :: "string list option"
  afterGetList :: "(json list \<Rightarrow> error + json) option"
  afterGetOne :: "(json \<Rightarrow> error + json) option"

datatype verb = Get | Post | Put | Delete

datatype layer =
    UseBodyParserJson
  | Use "response \<Rightarrow> response"
  | Route verb string handler

type_synonym router = "layer list"

definition Router :: router where
  "Router = []"

definition router_use :: "router \<Rightarrow> layer \<Rightarrow> router" where
  "router_use r l = r @ [l]"

definition router_route :: "router \<Rightarrow> verb \<Rightarrow> string \<Rightarrow> handler \<Rightarrow> router" where
  "router_route r v path h = r @ [Route v path h]"

text \<open>
  The loop over the action types. The \<^verbatim>\<open>switch\<close> compares strings; its default branch
  throws, and the router built so far is dropped with the frame.
\<close>

fun register_actions ::
  "(string \<Rightarrow> error + json) \<Rightarrow> string \<Rightarrow> model \<Rightarrow> (json list \<Rightarrow> error + json) \<Rightarrow>
   (json \<Rightarrow> error + json) \<Rightarrow> string list \<Rightarrow> router \<Rightarrow> error + router" where
  "register_actions JSON_parse resource mdl hookList hookOne [] r = Inr r"
| "register_actions JSON_parse resource mdl hookList hookOne (actionType # rest) r =
     (if actionType = GET_LIST then
        register_actions JSON_parse resource mdl hookList hookOne rest
          (router_route r Get resource (getList JSON_parse mdl hookList))
      else if actionType = GET_ONE then
        register_actions JSON_parse resource mdl hookList hookOne rest
          (router_route r Get (resource @ ''/:id'') (getOne mdl hookOne))
      else if actionType = CREATE then
        register_actions JSON_parse resource mdl hookList hookOne rest
          (router_route r Post resource (create mdl))
      else if actionType = UPDATE then
        register_actions JSON_parse resource mdl hookList hookOne rest
          (router_route r Put (resource @ ''/:id'') (update mdl))
      else if actionType = DELETE then
        register_actions JSON_parse resource mdl hookList hookOne rest
          (router_route r Delete (resource @ ''/:id'') (destroy mdl))
      else Inl (Error (''Unknown action type '' @ actionType)))"

text \<open>\<^verbatim>\<open>(options && options.f) || d\<close>: the options or the field may be undefined.\<close>

definition option_or :: "options option \<Rightarrow> (options \<Rightarrow> 'a option) \<Rightarrow> 'a \<Rightarrow> 'a" where
  "option_or opts f d =
     (case opts of None \<Rightarrow> d | Some os \<Rightarrow> (case f os of None \<Rightarrow> d | Some v \<Rightarrow> v))"

definition crud ::
  "(string \<Rightarrow> error + json) \<Rightarrow> string \<Rightarrow> model \<Rightarrow> options option \<Rightarrow> error + router" where
  "crud JSON_parse resource mdl opts =
     (let ats = option_or opts actionTypes ActionType_values;
          hookOne = option_or opts afterGetOne (\<lambda>data. Inr data);
          hookList = option_or opts afterGetList (\<lambda>data. Inr (JArr data));
          r = router_use (router_use Router UseBodyParserJson) (Use appendHeaders)
      in register_actions JSON_parse resource mdl hookList hookOne ats r)"

text \<open>The routes of a router, without its middleware.\<close>

fun routes :: "router \<Rightarrow> (verb \<times> string) list" where
  "routes [] = []"
| "routes (Route v path h # ls) = (v, path) # routes ls"
| "routes (l # ls) = routes ls"

section \<open>A reference table for the ORM\<close>

text \<open>
  Modelled from the spec: the data-model abstraction is an external collaborator, not part
  of the repository. Section 6 of the specification asks of it \<^verbatim>\<open>findByPk\<close>,
  \<^verbatim>\<open>update\<close> and \<^verbatim>\<open>destroy\<close> with "where semantics equivalent to a relational ORM".
  A table is a list of rows, a row a list of attributes; one attribute name is the primary
  key. A \<^verbatim>\<open>where\<close> object selects the rows that carry each of its attributes with
  the given value; \<^verbatim>\<open>findByPk\<close> returns the first row whose primary key is the given
  value; \<^verbatim>\<open>update\<close> with \<^verbatim>\<open>returning\<close> answers the number of selected rows and the
  rows as updated; \<^verbatim>\<open>destroy\<close> answers the number of selected rows.
\<close>

type_synonym row = "(string \<times> json) list"

definition matches :: "json \<Rightarrow> row \<Rightarrow> bool" where
  "matches wh r =
     (case wh of
        JObj kvs \<Rightarrow> list_all (\<lambda>kv. map_of r (fst kv) = Some (snd kv)) kvs
      | _ \<Rightarrow> False)"

definition set_values :: "json \<Rightarrow> row \<Rightarrow> row" where
  "set_values vals r =
     (case vals of
        JObj kvs \<Rightarrow> kvs @ filter (\<lambda>kv. map_of kvs (fst kv) = None) r
      | _ \<Rightarrow> r)"

definition table_findByPk :: "string \<Rightarrow> row list \<Rightarrow> string \<Rightarrow> bool \<Rightarrow> error + json option" where
  "table_findByPk pk rows ident rw =
     Inr (map_option JObj (find (\<lambda>r. map_of r pk = Some (JStr ident)) rows))"

definition table_update :: "row list \<Rightarrow> json \<Rightarrow> json \<Rightarrow> bool \<Rightarrow> error + json" where
  "table_update rows vals wh returning =
     (let hit = filter (matches wh) rows
      in Inr (JArr [JNum (int (length hit)), JArr (map (\<lambda>r. JObj (set_values vals r)) hit)]))"

definition table_destroy :: "row list \<Rightarrow> json \<Rightarrow> error + nat" where
  "table_destroy rows wh = Inr (length (filter (matches wh) rows))"

definition table_model :: "model \<Rightarrow> string \<Rightarrow> row list \<Rightarrow> model" where
  "table_model base pk rows =
     base\<lparr>findByPk := table_findByPk pk rows,
          model_update := table_update rows,
          model_destroy := table_destroy rows\<rparr>"

text \<open>
  The rows the existence check of a handler refers to, and the rows a
  \<^verbatim>\<open>where: { id: ... }\<close> object selects.
\<close>

definition checked_rows :: "string \<Rightarrow> row list \<Rightarrow> string \<Rightarrow> row list" where
  "checked_rows pk rows ident =
     (case find (\<lambda>r. map_of r pk = Some (JStr ident)) rows of None \<Rightarrow> [] | Some r \<Rightarrow> [r])"

definition updated_rows :: "row list \<Rightarrow> string \<Rightarrow> row list" where
  "updated_rows rows ident = filter (matches (JObj [(''id'', JStr ident)])) rows"

section \<open>Example data\<close>

definition res_strings :: response where
  "res_strings = new_response [Expose_Headers \<mapsto> HString ''X-Total , Content-Range'',
                               Allow_Headers \<mapsto> HString ''Authorization'']"

definition res_expose_array :: response where
  "res_expose_array = new_response [Expose_Headers \<mapsto> HArray [''X-Total''],
                                    Allow_Headers \<mapsto> HString ''Authorization'']"

definition res_allow_array :: response where
  "res_allow_array = new_response [Expose_Headers \<mapsto> HString ''X-Total'',
                                   Allow_Headers \<mapsto> HArray [''Authorization'']]"

definition res_only_expose_array :: response where
  "res_only_expose_array = new_response [Expose_Headers \<mapsto> HArray [''X-Total'']]"

definition res_only_allow_array :: response where
  "res_only_allow_array = new_response [Allow_Headers \<mapsto> HArray [''Authorization'']]"

text \<open>A model whose every call is rejected, and one that answers a single expected query.\<close>

definition offline_model :: model where
  "offline_model =
     \<lparr>findAndCountAll = (\<lambda>opts. Inl (Error ''offline'')),
      findByPk = (\<lambda>ident rw. Inl (Error ''offline'')),
      model_create = (\<lambda>vals rw. Inl (Error ''offline'')),
      model_update = (\<lambda>vals wh returning. Inl (Error ''offline'')),
      model_destroy = (\<lambda>wh. Inl (Error ''offline''))\<rparr>"

definition answering :: "find_options \<Rightarrow> nat \<times> json list \<Rightarrow> model" where
  "answering expected answer =
     offline_model\<lparr>findAndCountAll :=
       (\<lambda>opts. if opts = expected then Inr answer else Inl (Error ''unexpected query''))\<rparr>"

definition listing_model :: model where
  "listing_model =
     answering \<lparr>offset = 0, limit = 101, order_opt = [JArr [JStr ''id'', JStr ''ASC'']],
                  where_opt = JObj [], raw = True\<rparr>
               (2, [JObj [(''id'', JStr ''1'')], JObj [(''id'', JStr ''2'')]])"

definition users_table :: "row list" where
  "users_table = [[(''id'', JStr ''1''), (''name'', JStr ''Ada'')],
                  [(''id'', JStr ''2''), (''name'', JStr ''Bob'')]]"

definition users_model :: model where
  "users_model = table_model offline_model ''id'' users_table"

text \<open>A JSON parser for the four texts the examples send.\<close>

definition sample_parse :: "string \<Rightarrow> error + json" where
  \<open>sample_parse s =
     (if s = ''[5,9]'' then Inr (JArr [JNum 5, JNum 9])
      else if s = ''[0,100]'' then Inr (JArr [JNum 0, JNum 100])
      else if s = ''["id","ASC"]'' then Inr (JArr [JStr ''id'', JStr ''ASC''])
      else if s = ''{}'' then Inr (JObj [])
      else Inl (SyntaxError s))\<close>

definition request_of :: "(string \<Rightarrow> string option) \<Rightarrow> string \<Rightarrow> request" where
  "request_of q ident = \<lparr>query = q, params_id = ident, req_body = JObj [(''name'', JStr ''Eve'')]\<rparr>"

definition uuid_table :: "row list" where
  "uuid_table = [[(''uuid'', JStr ''1''), (''id'', JStr ''2''), (''name'', JStr ''Ada'')],
                 [(''uuid'', JStr ''2''), (''id'', JStr ''1''), (''name'', JStr ''Bob'')]]"

section \<open>Splitting, trimming and joining\<close>

lemma split_str_nonempty: "split_str c s \<noteq> []"
  by (induction s) (auto split: list.splits)

lemma split_str_no_sep: "e \<in> set (split_str c s) \<Longrightarrow> c \<notin> set e"
  by (induction s arbitrary: e) (auto split: list.splits if_splits)

lemma split_str_plain: "c \<notin> set x \<Longrightarrow> split_str c x = [x]"
  by (induction x) auto

lemma split_str_append: "c \<notin> set x \<Longrightarrow> split_str c (x @ c # r) = x # split_str c r"
  by (induction x) (auto split: list.splits)

lemma trim_subset: "set (trim s) \<subseteq> set s"
  by (auto simp: trim_def dest!: set_dropWhileD)

lemma drop_trailing_head:
  assumes "t = [] \<or> \<not> P (hd t)"
  shows "dropWhile P (rev (dropWhile P (rev t))) = rev (dropWhile P (rev t))"
proof (cases "rev (dropWhile P (rev t)) = []")
  case True
  then show ?thesis by (metis dropWhile.simps(1))
next
  case False
  have split: "t = rev (dropWhile P (rev t)) @ rev (takeWhile P (rev t))"
    by (metis rev_append rev_rev_ident takeWhile_dropWhile_id)
  with False have "hd t = hd (rev (dropWhile P (rev t)))"
    by (metis hd_append2)
  moreover from False split have "t \<noteq> []" by auto
  ultimately have "\<not> P (hd (rev (dropWhile P (rev t))))" using assms by simp
  with False show ?thesis by (simp add: dropWhile_eq_self_iff)
qed

lemma trim_trim: "trim (trim s) = trim s"
proof -
  have "dropWhile is_ws s = [] \<or> \<not> is_ws (hd (dropWhile is_ws s))"
    using hd_dropWhile by blast
  then show ?thesis
    unfolding trim_def by (simp add: drop_trailing_head)
qed

lemma trim_ws_Cons: "is_ws w \<Longrightarrow> trim (w # s) = trim s"
  by (simp add: trim_def)

lemma join_Cons: "ys \<noteq> [] \<Longrightarrow> join sep (x # ys) = x @ sep @ join sep ys"
  by (cases ys) auto

lemma trim_space_Cons: "trim (CHR '' '' # s) = trim s"
  by (rule trim_ws_Cons) (simp add: is_ws_def)

lemma entries_join:
  assumes "xs \<noteq> []" "\<forall>x\<in>set xs. CHR '','' \<notin> set x \<and> trim x = x"
  shows "header_entries (join '', '' xs) = xs"
  using assms
proof (induction xs rule: list_nonempty_induct)
  case (single x)
  then show ?case by (simp add: header_entries_def split_str_plain)
next
  case (cons x xs)
  then have ih: "header_entries (join '', '' xs) = xs" by simp
  from cons have x: "CHR '','' \<notin> set x" "trim x = x" by simp_all
  obtain p ps where sp: "split_str CHR '','' (join '', '' xs) = p # ps"
    using split_str_nonempty by (cases "split_str CHR '','' (join '', '' xs)") auto
  have "join '', '' (x # xs) = x @ CHR '','' # CHR '' '' # join '', '' xs"
    using cons.hyps by (simp add: join_Cons)
  then have "header_entries (join '', '' (x # xs))
      = trim x # map trim (split_str CHR '','' (CHR '' '' # join '', '' xs))"
    using x by (simp add: header_entries_def split_str_append)
  also have "map trim (split_str CHR '','' (CHR '' '' # join '', '' xs))
      = map trim (split_str CHR '','' (join '', '' xs))"
    using sp by (simp add: trim_space_Cons)
  finally show ?case using ih x by (simp add: header_entries_def)
qed

section \<open>Properties of header normalisation\<close>

lemma Content_Range_plain: "CHR '','' \<notin> set Content_Range" "trim Content_Range = Content_Range"
  by (simp_all add: Content_Range_def trim_def is_ws_def)

lemma header_entries_plain:
  "x \<in> set (header_entries s) \<Longrightarrow> CHR '','' \<notin> set x \<and> trim x = x"
  unfolding header_entries_def
  using split_str_no_sep trim_subset trim_trim by fastforce

lemma header_entries_nonempty: "header_entries s \<noteq> []"
  by (simp add: header_entries_def split_str_nonempty)

lemma entries_normalise:
  "header_entries (normalise s) =
     header_entries s @ (if Content_Range \<in> set (header_entries s) then [] else [Content_Range])"
  unfolding normalise_def Let_def
  by (rule trans [OF entries_join])
     (auto simp: header_entries_nonempty Content_Range_plain dest: header_entries_plain)

lemma normalise_idem: "normalise (normalise s) = normalise s"
proof -
  have "Content_Range \<in> set (header_entries (normalise s))"
    by (simp add: entries_normalise)
  then have "normalise (normalise s) = join '', '' (header_entries (normalise s))"
    by (simp add: normalise_def)
  also have "\<dots> = normalise s"
    by (subst entries_normalise) (simp add: normalise_def Let_def)
  finally show ?thesis .
qed

lemma normalise_empty: "normalise [] = '', Content-Range''"
  by (simp add: normalise_def header_entries_def trim_def Content_Range_def)

lemma header_names_distinct: "Expose_Headers \<noteq> Allow_Headers"
  by (simp add: Expose_Headers_def Allow_Headers_def)

lemma res_getHeader_res_header:
  "res_getHeader (res_header res name v) name' =
     (if name' = name then Some (HString v) else res_getHeader res name')"
  by (simp add: res_getHeader_def res_header_def)

lemma res_header_same:
  "res_getHeader res name = Some (HString v) \<Longrightarrow> res_header res name v = res"
  by (simp add: res_getHeader_def res_header_def fun_upd_idem)

lemma or_empty_HString [simp]: "or_empty (Some (HString s)) = HString s"
  by (simp add: or_empty_def)

lemma appendHeaders_unfold:
  "appendHeaders res =
     (case or_empty (res_getHeader res Expose_Headers) of
        HString e \<Rightarrow>
          (case or_empty (res_getHeader res Allow_Headers) of
             HString a \<Rightarrow>
               res_header (res_header res Expose_Headers (normalise e)) Allow_Headers (normalise a)
           | HNumber n \<Rightarrow> res_header res Expose_Headers (normalise e)
           | HArray xs \<Rightarrow> res_header res Expose_Headers (normalise e))
      | HNumber n \<Rightarrow> res
      | HArray xs \<Rightarrow> res)"
  using header_names_distinct
  by (auto simp: appendHeaders_def res_getHeader_res_header split: header_value.splits)

lemma appendHeaders_idem: "appendHeaders (appendHeaders res) = appendHeaders res"
proof (cases "or_empty (res_getHeader res Expose_Headers)")
  case (HString e)
  note e = this
  let ?r1 = "res_header res Expose_Headers (normalise e)"
  show ?thesis
  proof (cases "or_empty (res_getHeader res Allow_Headers)")
    case (HString a)
    let ?r2 = "res_header ?r1 Allow_Headers (normalise a)"
    have r: "appendHeaders res = ?r2" using e HString by (simp add: appendHeaders_unfold)
    have ge: "res_getHeader ?r2 Expose_Headers = Some (HString (normalise e))"
      using header_names_distinct by (simp add: res_getHeader_res_header)
    have ga: "res_getHeader ?r2 Allow_Headers = Some (HString (normalise a))"
      by (simp add: res_getHeader_res_header)
    have "appendHeaders ?r2 =
        res_header (res_header ?r2 Expose_Headers (normalise (normalise e)))
          Allow_Headers (normalise (normalise a))"
      by (simp add: appendHeaders_unfold [of ?r2] ge ga)
    also have "\<dots> = ?r2"
      by (simp only: normalise_idem res_header_same [OF ge] res_header_same [OF ga])
    finally show ?thesis by (simp only: r)
  next
    case (HNumber n)
    have r: "appendHeaders res = ?r1" using e HNumber by (simp add: appendHeaders_unfold)
    have ge: "res_getHeader ?r1 Expose_Headers = Some (HString (normalise e))"
      by (simp add: res_getHeader_res_header)
    have ga: "res_getHeader ?r1 Allow_Headers = res_getHeader res Allow_Headers"
      using header_names_distinct by (simp add: res_getHeader_res_header)
    have "appendHeaders ?r1 = res_header ?r1 Expose_Headers (normalise (normalise e))"
      by (simp add: appendHeaders_unfold [of ?r1] ge ga HNumber)
    also have "\<dots> = ?r1"
      by (simp only: normalise_idem res_header_same [OF ge])
    finally show ?thesis by (simp only: r)
  next
    case (HArray xs)
    have r: "appendHeaders res = ?r1" using e HArray by (simp add: appendHeaders_unfold)
    have ge: "res_getHeader ?r1 Expose_Headers = Some (HString (normalise e))"
      by (simp add: res_getHeader_res_header)
    have ga: "res_getHeader ?r1 Allow_Headers = res_getHeader res Allow_Headers"
      using header_names_distinct by (simp add: res_getHeader_res_header)
    have "appendHeaders ?r1 = res_header ?r1 Expose_Headers (normalise (normalise e))"
      by (simp add: appendHeaders_unfold [of ?r1] ge ga HArray)
    also have "\<dots> = ?r1"
      by (simp only: normalise_idem res_header_same [OF ge])
    finally show ?thesis by (simp only: r)
  qed
next
  case (HNumber n)
  then show ?thesis by (simp add: appendHeaders_unfold)
next
  case (HArray xs)
  then show ?thesis by (simp add: appendHeaders_unfold)
qed

lemmas header_names = Expose_Headers_def Allow_Headers_def
lemmas eval_normalise = normalise_def header_entries_def trim_def is_ws_def Content_Range_def

text \<open>
  Claim C4. When both CORS headers hold strings, normalising twice gives the response that
  normalising once gives; each header then holds \<open>normalise\<close> of its old value, whose
  entries are the old entries (trimmed, in order), followed by \<^verbatim>\<open>Content-Range\<close> exactly
  when no old entry equals it.
\<close>

theorem appendHeaders_idempotent:
  assumes "res_getHeader res Expose_Headers = Some (HString e)"
    and "res_getHeader res Allow_Headers = Some (HString a)"
  shows "appendHeaders (appendHeaders res) = appendHeaders res \<and>
         res_getHeader (appendHeaders res) Expose_Headers = Some (HString (normalise e)) \<and>
         res_getHeader (appendHeaders res) Allow_Headers = Some (HString (normalise a)) \<and>
         header_entries (normalise e) =
           header_entries e @ (if Content_Range \<in> set (header_entries e) then [] else [Content_Range]) \<and>
         header_entries (normalise a) =
           header_entries a @ (if Content_Range \<in> set (header_entries a) then [] else [Content_Range])"
proof -
  have r: "appendHeaders res =
      res_header (res_header res Expose_Headers (normalise e)) Allow_Headers (normalise a)"
    using assms by (simp add: appendHeaders_unfold)
  have ge: "res_getHeader (appendHeaders res) Expose_Headers = Some (HString (normalise e))"
    using header_names_distinct by (simp add: r res_getHeader_res_header)
  have ga: "res_getHeader (appendHeaders res) Allow_Headers = Some (HString (normalise a))"
    by (simp add: r res_getHeader_res_header)
  show ?thesis
    using appendHeaders_idem [of res] ge ga entries_normalise [of e] entries_normalise [of a]
    by (intro conjI)
qed

text \<open>
  The same at a response whose exposed headers already list \<^verbatim>\<open>Content-Range\<close> and whose
  allowed headers do not.
\<close>

theorem appendHeaders_idempotent_witness:
  "res_getHeader res_strings Expose_Headers = Some (HString ''X-Total , Content-Range'') \<and>
   res_getHeader res_strings Allow_Headers = Some (HString ''Authorization'') \<and>
   appendHeaders (appendHeaders res_strings) = appendHeaders res_strings \<and>
   res_getHeader (appendHeaders res_strings) Expose_Headers
     = Some (HString ''X-Total, Content-Range'') \<and>
   res_getHeader (appendHeaders res_strings) Allow_Headers
     = Some (HString ''Authorization, Content-Range'') \<and>
   header_entries ''X-Total, Content-Range'' = [''X-Total'', ''Content-Range''] \<and>
   header_entries ''Authorization, Content-Range'' = [''Authorization'', ''Content-Range'']"
proof -
  have e: "res_getHeader res_strings Expose_Headers = Some (HString ''X-Total , Content-Range'')"
    by (simp add: res_strings_def new_response_def res_getHeader_def header_names)
  have a: "res_getHeader res_strings Allow_Headers = Some (HString ''Authorization'')"
    by (simp add: res_strings_def new_response_def res_getHeader_def header_names)
  have ne: "normalise ''X-Total , Content-Range'' = ''X-Total, Content-Range''"
    by (simp add: eval_normalise)
  have na: "normalise ''Authorization'' = ''Authorization, Content-Range''"
    by (simp add: eval_normalise)
  have he: "header_entries ''X-Total , Content-Range'' = [''X-Total'', ''Content-Range'']"
    by (simp add: eval_normalise)
  have ha: "header_entries ''Authorization'' = [''Authorization'']"
    by (simp add: eval_normalise)
  show ?thesis
    using appendHeaders_idempotent [OF e a] e a
    by (simp add: ne na he ha Content_Range_def)
qed

text \<open>
  What the loop does on a value that is not a string. The headers are visited in the order
  Expose, Allow. A value of the first header that is not a string leaves the response as it
  was, the second header included. When the first value is a string and the second is not,
  the first header is rewritten and the second keeps its value.
\<close>

lemma appendHeaders_non_string:
  "(\<not> is_string (or_empty (res_getHeader res Expose_Headers)) \<longrightarrow> appendHeaders res = res) \<and>
   (or_empty (res_getHeader res Expose_Headers) = HString e \<and>
    \<not> is_string (or_empty (res_getHeader res Allow_Headers)) \<longrightarrow>
      appendHeaders res = res_header res Expose_Headers (normalise e) \<and>
      res_getHeader (appendHeaders res) Allow_Headers = res_getHeader res Allow_Headers)"
  using header_names_distinct
  by (auto simp: appendHeaders_unfold is_string_def res_getHeader_res_header
           split: header_value.splits)

text \<open>
  Claim C2 does not hold of the code. On a response whose
  \<^verbatim>\<open>Access-Control-Expose-Headers\<close> is an array and whose
  \<^verbatim>\<open>Access-Control-Allow-Headers\<close> is the string \<^verbatim>\<open>Authorization\<close>, normalisation
  returns at the first header and changes nothing: the second header is not processed,
  although processing it would append \<^verbatim>\<open>Content-Range\<close>. With the two values swapped,
  the array is skipped and the other header is processed, as the claim says.
\<close>

theorem appendHeaders_skips_later_header:
  "res_getHeader res_expose_array Expose_Headers = Some (HArray [''X-Total'']) \<and>
   res_getHeader res_expose_array Allow_Headers = Some (HString ''Authorization'') \<and>
   appendHeaders res_expose_array = res_expose_array \<and>
   normalise ''Authorization'' = ''Authorization, Content-Range'' \<and>
   res_getHeader (appendHeaders res_allow_array) Expose_Headers
     = Some (HString ''X-Total, Content-Range'') \<and>
   res_getHeader (appendHeaders res_allow_array) Allow_Headers
     = Some (HArray [''Authorization''])"
  by (simp add: res_expose_array_def res_allow_array_def new_response_def res_getHeader_def
      res_header_def header_names or_empty_def appendHeaders_def eval_normalise)

text \<open>
  What the loop does on an absent or empty header. An absent or empty
  \<^verbatim>\<open>Access-Control-Expose-Headers\<close> is set to \<^verbatim>\<open>", Content-Range"\<close>, whose first entry
  is the empty string. An absent or empty \<^verbatim>\<open>Access-Control-Allow-Headers\<close> is set to the
  same text when the value read for the first header is a string, so that the loop reaches
  the second.
\<close>

lemma appendHeaders_absent_or_empty:
  "(res_getHeader res Expose_Headers = None \<or> res_getHeader res Expose_Headers = Some (HString []) \<longrightarrow>
      res_getHeader (appendHeaders res) Expose_Headers = Some (HString '', Content-Range'')) \<and>
   (is_string (or_empty (res_getHeader res Expose_Headers)) \<and>
    (res_getHeader res Allow_Headers = None \<or> res_getHeader res Allow_Headers = Some (HString [])) \<longrightarrow>
      res_getHeader (appendHeaders res) Allow_Headers = Some (HString '', Content-Range''))"
  using header_names_distinct
  by (auto simp: appendHeaders_unfold is_string_def res_getHeader_res_header normalise_empty
        or_empty_def split: header_value.splits)

text \<open>
  Claim C9 does not hold of the code. On a response whose
  \<^verbatim>\<open>Access-Control-Expose-Headers\<close> is an array and whose
  \<^verbatim>\<open>Access-Control-Allow-Headers\<close> is absent, normalisation returns at the first header
  and the absent header stays absent instead of being set to \<^verbatim>\<open>", Content-Range"\<close>. With
  the array in the second header and the first header absent, the absent header is set, as
  the claim says.
\<close>

theorem appendHeaders_absent_left_unset:
  "res_getHeader res_only_expose_array Expose_Headers = Some (HArray [''X-Total'']) \<and>
   res_getHeader res_only_expose_array Allow_Headers = None \<and>
   res_getHeader (appendHeaders res_only_expose_array) Allow_Headers = None \<and>
   res_getHeader res_only_allow_array Expose_Headers = None \<and>
   res_getHeader (appendHeaders res_only_allow_array) Expose_Headers
     = Some (HString '', Content-Range'') \<and>
   res_getHeader (appendHeaders res_only_allow_array) Allow_Headers
     = Some (HArray [''Authorization''])"
  by (simp add: res_only_expose_array_def res_only_allow_array_def new_response_def
      res_getHeader_def res_header_def header_names or_empty_def appendHeaders_def
      normalise_empty)

section \<open>Properties of the route-set generator\<close>

lemmas action_types = GET_LIST_def GET_ONE_def CREATE_def UPDATE_def DELETE_def

text \<open>
  Claim C1, amended. When the options or their \<open>actionTypes\<close> are unset, the router holds
  the two middleware and then the five routes, in the order list, get-one, create, update,
  delete, each with the handler built for it. When \<open>actionTypes\<close> is the empty list, the
  router holds the two middleware and no route: an empty array is truthy, so the
  \<^verbatim>\<open>||\<close> default does not apply.
\<close>

theorem crud_default_actions:
  "(opts = None \<or> (\<exists>os. opts = Some os \<and> actionTypes os = None) \<longrightarrow>
      crud JSON_parse resource mdl opts =
        Inr [UseBodyParserJson, Use appendHeaders,
             Route Get resource
               (getList JSON_parse mdl (option_or opts afterGetList (\<lambda>data. Inr (JArr data)))),
             Route Get (resource @ ''/:id'')
               (getOne mdl (option_or opts afterGetOne (\<lambda>data. Inr data))),
             Route Post resource (create mdl),
             Route Put (resource @ ''/:id'') (update mdl),
             Route Delete (resource @ ''/:id'') (destroy mdl)]) \<and>
   (actionTypes os = Some [] \<longrightarrow>
      crud JSON_parse resource mdl (Some os) = Inr [UseBodyParserJson, Use appendHeaders])"
  by (auto simp: crud_def option_or_def ActionType_values_def action_types Router_def
        router_use_def router_route_def)

text \<open>Both cases for the resource \<^verbatim>\<open>/users\<close>.\<close>

theorem crud_default_actions_witness:
  "(\<exists>r. crud sample_parse ''/users'' users_model None = Inr r \<and>
        routes r = [(Get, ''/users''), (Get, ''/users/:id''), (Post, ''/users''),
                    (Put, ''/users/:id''), (Delete, ''/users/:id'')]) \<and>
   actionTypes \<lparr>actionTypes = Some [], afterGetList = None, afterGetOne = None\<rparr> = Some [] \<and>
   crud sample_parse ''/users'' users_model
      (Some \<lparr>actionTypes = Some [], afterGetList = None, afterGetOne = None\<rparr>)
     = Inr [UseBodyParserJson, Use appendHeaders]"
  using crud_default_actions [of None sample_parse "''/users''" users_model
      "\<lparr>actionTypes = Some [], afterGetList = None, afterGetOne = None\<rparr>"]
  by simp

text \<open>
  Claim C1 as stated fails for the empty list: the router that is returned has no route.
\<close>

theorem crud_empty_actionTypes:
  "crud sample_parse ''/users'' users_model
      (Some \<lparr>actionTypes = Some [], afterGetList = None, afterGetOne = None\<rparr>)
     = Inr [UseBodyParserJson, Use appendHeaders] \<and>
   routes [UseBodyParserJson, Use appendHeaders] = []"
  by (simp add: crud_def option_or_def Router_def router_use_def)

lemma register_actions_unknown:
  "find (\<lambda>a. a \<notin> set ActionType_values) ats = Some u \<Longrightarrow>
   register_actions P resource mdl hl ho ats r = Inl (Error (''Unknown action type '' @ u))"
  by (induction ats arbitrary: r) (auto simp: ActionType_values_def split: if_splits)

text \<open>
  Claim C3. When \<open>actionTypes\<close> contains a value outside the five action types, the
  generator throws \<^verbatim>\<open>Unknown action type\<close> followed by the first such value, and returns
  no router, whatever valid action types come before that value.
\<close>

theorem crud_unknown_action:
  assumes "t \<in> set ats" and "t \<notin> set ActionType_values" and "actionTypes os = Some ats"
  shows "\<exists>u. find (\<lambda>a. a \<notin> set ActionType_values) ats = Some u \<and>
             crud JSON_parse resource mdl (Some os) = Inl (Error (''Unknown action type '' @ u)) \<and>
             (\<forall>r. crud JSON_parse resource mdl (Some os) \<noteq> Inr r)"
proof -
  from assms(1,2) obtain u where u: "find (\<lambda>a. a \<notin> set ActionType_values) ats = Some u"
    by (cases "find (\<lambda>a. a \<notin> set ActionType_values) ats") (auto simp: find_None_iff)
  have "crud JSON_parse resource mdl (Some os) = Inl (Error (''Unknown action type '' @ u))"
    using assms(3) by (simp add: crud_def option_or_def register_actions_unknown [OF u])
  with u show ?thesis by simp
qed

text \<open>An unknown type between two valid ones.\<close>

theorem crud_unknown_action_witness:
  "''PATCH'' \<in> set [GET_LIST, ''PATCH'', CREATE] \<and> ''PATCH'' \<notin> set ActionType_values \<and>
   crud sample_parse ''/users'' users_model
      (Some \<lparr>actionTypes = Some [GET_LIST, ''PATCH'', CREATE], afterGetList = None,
             afterGetOne = None\<rparr>)
     = Inl (Error ''Unknown action type PATCH'')"
proof -
  have 1: "''PATCH'' \<in> set [GET_LIST, ''PATCH'', CREATE]" by simp
  have 2: "''PATCH'' \<notin> set ActionType_values" by (simp add: ActionType_values_def action_types)
  have 3: "find (\<lambda>a. a \<notin> set ActionType_values) [GET_LIST, ''PATCH'', CREATE] = Some ''PATCH''"
    by (simp add: ActionType_values_def action_types)
  show ?thesis
    using crud_unknown_action [OF 1 2, of
        "\<lparr>actionTypes = Some [GET_LIST, ''PATCH'', CREATE], afterGetList = None, afterGetOne = None\<rparr>"
        sample_parse "''/users''" users_model] 1 2 3
    by simp
qed

section \<open>Properties of the list handler\<close>

lemma if_given_Some: "s \<noteq> [] \<Longrightarrow> if_given (Some s) f d = f s"
  by (simp add: if_given_def)

lemma if_given_None: "if_given None f d = Inr d"
  by (simp add: if_given_def)

lemma getList_cong:
  "list_options P req = list_options P req' \<Longrightarrow> getList P mdl hook req res = getList P mdl hook req' res"
  by (simp add: getList_def)

text \<open>
  Claim C5. A valid range is an array \<open>[from, to]\<close> of safe integers whose window size
  \<open>to - from + 1\<close> is a safe integer too, so that the source's doubles compute it exactly
  (the difference \<open>to - from\<close> then lies within \<open>2 ^ 53\<close> of zero and is exact as well).
  For a request whose \<^verbatim>\<open>range\<close> parses to such an array (the sort and the filter parse
  too), the query handed to \<^verbatim>\<open>findAndCountAll\<close> has offset \<open>from\<close> and limit
  \<open>to - from + 1\<close>. When the model answers that query with \<open>rows\<close> and \<open>totalCount\<close>,
  both \<open>from + length rows\<close> and \<open>totalCount\<close> safe integers, the handler leaves the
  header \<^verbatim>\<open>Content-Range\<close> set to \<open>from\<close>, a dash, \<open>from + length rows\<close>, a slash and
  \<open>totalCount\<close>, whatever the hook does afterwards.
\<close>

theorem getList_range:
  assumes "query req ''range'' = Some r" and "r \<noteq> []"
    and "JSON_parse r = Inr (JArr [JNum from, JNum to])"
    and "if_given (query req ''sort'') JSON_parse (JArr [JStr ''id'', JStr ''ASC'']) = Inr srt"
    and "if_given (query req ''filter'') JSON_parse (JObj []) = Inr flt"
    and "findAndCountAll mdl
           \<lparr>offset = from, limit = to - from + 1, order_opt = [srt], where_opt = flt, raw = True\<rparr>
         = Inr (totalCount, rows)"
    and "safe_integer from" and "safe_integer to" and "safe_integer (to - from + 1)"
    and "safe_integer (from + int (length rows))" and "safe_integer (int totalCount)"
  shows "list_options JSON_parse req =
           Inr \<lparr>offset = from, limit = to - from + 1, order_opt = [srt], where_opt = flt, raw = True\<rparr> \<and>
         res_getHeader (fst (getList JSON_parse mdl afterHook req res)) Content_Range =
           Some (HString (show_int from @ ''-'' @ show_int (from + int (length rows)) @ ''/'' @
                          show_int (int totalCount)))"
proof -
  have opts: "list_options JSON_parse req =
      Inr \<lparr>offset = from, limit = to - from + 1, order_opt = [srt], where_opt = flt, raw = True\<rparr>"
    using assms(1-5) by (simp add: list_options_def if_given_Some parse_range_def)
  have "res_getHeader (fst (getList JSON_parse mdl afterHook req res)) Content_Range =
      Some (HString (content_range from (length rows) totalCount))"
    using assms(6)
    by (simp add: getList_def opts res_set_def res_header_def res_json_def
        res_getHeader_def Let_def split: sum.splits)
  with opts show ?thesis by (simp add: content_range_def)
qed

lemma show_nat_digit: "n < 10 \<Longrightarrow> show_nat n = [digit_char n]"
  by (simp add: show_nat.simps)

text \<open>The range \<^verbatim>\<open>[5,9]\<close> against a model that answers only offset 5, limit 5.\<close>

theorem getList_range_witness:
  "res_getHeader
     (fst (getList sample_parse
             (answering \<lparr>offset = 5, limit = 5, order_opt = [JArr [JStr ''id'', JStr ''ASC'']],
                          where_opt = JObj [], raw = True\<rparr>
                        (12, [JNull, JNull, JNull]))
             (\<lambda>rows. Inr (JArr rows))
             (request_of [''range'' \<mapsto> ''[5,9]''] ''0'')
             (new_response Map.empty)))
     Content_Range
   = Some (HString ''5-8/12'')"
proof -
  let ?req = "request_of [''range'' \<mapsto> ''[5,9]''] ''0''"
  let ?opts = "\<lparr>offset = 5, limit = 9 - 5 + 1, order_opt = [JArr [JStr ''id'', JStr ''ASC'']],
                 where_opt = JObj [], raw = True\<rparr>"
  let ?mdl = "answering ?opts (12, [JNull, JNull, JNull])"
  have 1: "query ?req ''range'' = Some ''[5,9]''" by (simp add: request_of_def)
  have 2: "''[5,9]'' \<noteq> []" by simp
  have 3: "sample_parse ''[5,9]'' = Inr (JArr [JNum 5, JNum 9])" by (simp add: sample_parse_def)
  have 4: "if_given (query ?req ''sort'') sample_parse (JArr [JStr ''id'', JStr ''ASC''])
           = Inr (JArr [JStr ''id'', JStr ''ASC''])"
    by (simp add: request_of_def if_given_def)
  have 5: "if_given (query ?req ''filter'') sample_parse (JObj []) = Inr (JObj [])"
    by (simp add: request_of_def if_given_def)
  have 6: "findAndCountAll ?mdl ?opts = Inr (12, [JNull, JNull, JNull])"
    by (simp add: answering_def)
  have 7: "safe_integer 5" "safe_integer 9" "safe_integer (9 - 5 + 1)"
    "safe_integer (5 + int (length [JNull, JNull, JNull]))" "safe_integer (int 12)"
    by (simp_all add: safe_integer_def MAX_SAFE_INTEGER_def)
  have s: "show_int 5 = ''5''" "show_int 8 = ''8''" "show_int 12 = ''12''"
    by (simp_all add: show_int_def show_nat.simps digit_char_def)
  show ?thesis
    using getList_range [OF 1 2 3 4 5 6 7, of "\<lambda>rows. Inr (JArr rows)" "new_response Map.empty"]
    by (simp add: s)
qed

text \<open>
  Claim C8. With the three parameters omitted the query has offset 0, limit 101, the order
  \<^verbatim>\<open>[["id","ASC"]]\<close> and an empty \<^verbatim>\<open>where\<close> object. Each parameter taken alone: a
  request that omits it is handled as the request that sends a text parsing to its default,
  \<^verbatim>\<open>[0,100]\<close> for the range, \<^verbatim>\<open>["id","ASC"]\<close> for the sort, \<^verbatim>\<open>{}\<close> for the filter.
\<close>

theorem getList_defaults:
  "(query req ''range'' = None \<and> query req ''sort'' = None \<and> query req ''filter'' = None \<longrightarrow>
      list_options JSON_parse req =
        Inr \<lparr>offset = 0, limit = 101, order_opt = [JArr [JStr ''id'', JStr ''ASC'']],
             where_opt = JObj [], raw = True\<rparr>) \<and>
   (query req ''range'' = None \<and> r \<noteq> [] \<and> JSON_parse r = Inr (JArr [JNum 0, JNum 100]) \<longrightarrow>
      getList JSON_parse mdl afterHook req res =
      getList JSON_parse mdl afterHook (req\<lparr>query := (query req)(''range'' \<mapsto> r)\<rparr>) res) \<and>
   (query req ''sort'' = None \<and> s \<noteq> [] \<and> JSON_parse s = Inr (JArr [JStr ''id'', JStr ''ASC'']) \<longrightarrow>
      getList JSON_parse mdl afterHook req res =
      getList JSON_parse mdl afterHook (req\<lparr>query := (query req)(''sort'' \<mapsto> s)\<rparr>) res) \<and>
   (query req ''filter'' = None \<and> f \<noteq> [] \<and> JSON_parse f = Inr (JObj []) \<longrightarrow>
      getList JSON_parse mdl afterHook req res =
      getList JSON_parse mdl afterHook (req\<lparr>query := (query req)(''filter'' \<mapsto> f)\<rparr>) res)"
proof (intro conjI impI)
  assume "query req ''range'' = None \<and> query req ''sort'' = None \<and> query req ''filter'' = None"
  then show "list_options JSON_parse req =
        Inr \<lparr>offset = 0, limit = 101, order_opt = [JArr [JStr ''id'', JStr ''ASC'']],
             where_opt = JObj [], raw = True\<rparr>"
    by (simp add: list_options_def if_given_None)
next
  assume "query req ''range'' = None \<and> r \<noteq> [] \<and> JSON_parse r = Inr (JArr [JNum 0, JNum 100])"
  then show "getList JSON_parse mdl afterHook req res =
      getList JSON_parse mdl afterHook (req\<lparr>query := (query req)(''range'' \<mapsto> r)\<rparr>) res"
    by (intro getList_cong) (simp add: list_options_def if_given_def parse_range_def cong: sum.case_cong)
next
  assume "query req ''sort'' = None \<and> s \<noteq> [] \<and> JSON_parse s = Inr (JArr [JStr ''id'', JStr ''ASC''])"
  then show "getList JSON_parse mdl afterHook req res =
      getList JSON_parse mdl afterHook (req\<lparr>query := (query req)(''sort'' \<mapsto> s)\<rparr>) res"
    by (intro getList_cong) (simp add: list_options_def if_given_def cong: sum.case_cong)
next
  assume "query req ''filter'' = None \<and> f \<noteq> [] \<and> JSON_parse f = Inr (JObj [])"
  then show "getList JSON_parse mdl afterHook req res =
      getList JSON_parse mdl afterHook (req\<lparr>query := (query req)(''filter'' \<mapsto> f)\<rparr>) res"
    by (intro getList_cong) (simp add: list_options_def if_given_def cong: sum.case_cong)
qed

text \<open>A request without query parameters, compared with the three explicit ones.\<close>

theorem getList_defaults_witness:
  \<open>query (request_of Map.empty ''0'') ''range'' = None \<and>
   query (request_of Map.empty ''0'') ''sort'' = None \<and>
   query (request_of Map.empty ''0'') ''filter'' = None \<and>
   sample_parse ''[0,100]'' = Inr (JArr [JNum 0, JNum 100]) \<and>
   sample_parse ''["id","ASC"]'' = Inr (JArr [JStr ''id'', JStr ''ASC'']) \<and>
   sample_parse ''{}'' = Inr (JObj []) \<and>
   list_options sample_parse (request_of Map.empty ''0'') =
     Inr \<lparr>offset = 0, limit = 101, order_opt = [JArr [JStr ''id'', JStr ''ASC'']],
          where_opt = JObj [], raw = True\<rparr> \<and>
   getList sample_parse listing_model (\<lambda>rows. Inr (JArr rows)) (request_of Map.empty ''0'')
       (new_response Map.empty) =
     getList sample_parse listing_model (\<lambda>rows. Inr (JArr rows))
       (request_of [''range'' \<mapsto> ''[0,100]''] ''0'') (new_response Map.empty) \<and>
   getList sample_parse listing_model (\<lambda>rows. Inr (JArr rows)) (request_of Map.empty ''0'')
       (new_response Map.empty) =
     getList sample_parse listing_model (\<lambda>rows. Inr (JArr rows))
       (request_of [''sort'' \<mapsto> ''["id","ASC"]''] ''0'') (new_response Map.empty) \<and>
   getList sample_parse listing_model (\<lambda>rows. Inr (JArr rows)) (request_of Map.empty ''0'')
       (new_response Map.empty) =
     getList sample_parse listing_model (\<lambda>rows. Inr (JArr rows))
       (request_of [''filter'' \<mapsto> ''{}''] ''0'') (new_response Map.empty) \<and>
   res_getHeader
     (fst (getList sample_parse listing_model (\<lambda>rows. Inr (JArr rows))
            (request_of Map.empty ''0'') (new_response Map.empty)))
     Content_Range = Some (HString ''0-2/2'')\<close>
proof -
  let ?req = "request_of Map.empty ''0''"
  note T = getList_defaults [of ?req sample_parse "''[0,100]''"
      listing_model "\<lambda>rows. Inr (JArr rows)" "new_response Map.empty"
      \<open>''["id","ASC"]''\<close> "''{}''"]
  have q: "query ?req ''range'' = None" "query ?req ''sort'' = None" "query ?req ''filter'' = None"
    by (simp_all add: request_of_def)
  have u: "\<And>k v. ?req\<lparr>query := (query ?req)(k \<mapsto> v)\<rparr> = request_of [k \<mapsto> v] ''0''"
    by (simp add: request_of_def)
  have p: \<open>sample_parse ''[0,100]'' = Inr (JArr [JNum 0, JNum 100])\<close>
    \<open>sample_parse ''["id","ASC"]'' = Inr (JArr [JStr ''id'', JStr ''ASC''])\<close>
    \<open>sample_parse ''{}'' = Inr (JObj [])\<close>
    by (simp_all add: sample_parse_def)
  have n: \<open>''[0,100]'' \<noteq> []\<close> \<open>''["id","ASC"]'' \<noteq> []\<close> \<open>''{}'' \<noteq> []\<close>
    by simp_all
  have c1: "list_options sample_parse ?req =
     Inr \<lparr>offset = 0, limit = 101, order_opt = [JArr [JStr ''id'', JStr ''ASC'']],
          where_opt = JObj [], raw = True\<rparr>"
    using T q by blast
  have c2: "getList sample_parse listing_model (\<lambda>rows. Inr (JArr rows)) ?req (new_response Map.empty) =
     getList sample_parse listing_model (\<lambda>rows. Inr (JArr rows))
       (request_of [''range'' \<mapsto> ''[0,100]''] ''0'') (new_response Map.empty)"
    using T q p n unfolding u by blast
  have c3: \<open>getList sample_parse listing_model (\<lambda>rows. Inr (JArr rows)) ?req (new_response Map.empty) =
     getList sample_parse listing_model (\<lambda>rows. Inr (JArr rows))
       (request_of [''sort'' \<mapsto> ''["id","ASC"]''] ''0'') (new_response Map.empty)\<close>
    using T q p n unfolding u by blast
  have c4: "getList sample_parse listing_model (\<lambda>rows. Inr (JArr rows)) ?req (new_response Map.empty) =
     getList sample_parse listing_model (\<lambda>rows. Inr (JArr rows))
       (request_of [''filter'' \<mapsto> ''{}''] ''0'') (new_response Map.empty)"
    using T q p n unfolding u by blast
  have s: "show_int 0 = ''0''" "show_int 2 = ''2''"
    by (simp_all add: show_int_def show_nat.simps digit_char_def)
  have c5: "res_getHeader
     (fst (getList sample_parse listing_model (\<lambda>rows. Inr (JArr rows)) ?req
            (new_response Map.empty)))
     Content_Range = Some (HString ''0-2/2'')"
    by (simp add: getList_def c1 listing_model_def answering_def content_range_def s
        res_set_def res_header_def res_json_def res_getHeader_def)
  show ?thesis
    using q p c1 c2 c3 c4 c5 by (intro conjI)
qed

section \<open>Properties of the record handlers\<close>

lemmas eval_table = users_model_def table_model_def table_findByPk_def table_update_def
  table_destroy_def users_table_def matches_def set_values_def offline_model_def

text \<open>
  Claim C7. Whatever number of rows the model reports as deleted, zero included, the
  delete handler answers with the untouched default status 200 and the body
  \<^verbatim>\<open>{id}\<close> of the requested id. It looks nothing up: replacing the
  model's \<^verbatim>\<open>findByPk\<close> and \<^verbatim>\<open>findAndCountAll\<close> does not change its outcome.
\<close>

theorem destroy_always_ok:
  assumes "model_destroy mdl (JObj [(''id'', JStr (params_id req))]) = Inr n"
    and "statusCode res = 200"
  shows "destroy mdl req res = (res\<lparr>body := Some (JObj [(''id'', JStr (params_id req))])\<rparr>, None) \<and>
         statusCode (fst (destroy mdl req res)) = 200 \<and>
         destroy (mdl\<lparr>findByPk := f, findAndCountAll := g\<rparr>) req res = destroy mdl req res"
  using assms by (simp add: destroy_def res_json_def)

text \<open>On the users table: an id that exists and one that does not.\<close>

theorem destroy_always_ok_witness:
  "model_destroy users_model (JObj [(''id'', JStr ''1'')]) = Inr 1 \<and>
   model_destroy users_model (JObj [(''id'', JStr ''7'')]) = Inr 0 \<and>
   statusCode (new_response Map.empty) = 200 \<and>
   destroy users_model (request_of Map.empty ''1'') (new_response Map.empty) =
     ((new_response Map.empty)\<lparr>body := Some (JObj [(''id'', JStr ''1'')])\<rparr>, None) \<and>
   destroy users_model (request_of Map.empty ''7'') (new_response Map.empty) =
     ((new_response Map.empty)\<lparr>body := Some (JObj [(''id'', JStr ''7'')])\<rparr>, None)"
proof -
  have 1: "model_destroy users_model (JObj [(''id'', JStr (params_id (request_of Map.empty ''1'')))]) = Inr 1"
    by (simp add: eval_table request_of_def)
  have 7: "model_destroy users_model (JObj [(''id'', JStr (params_id (request_of Map.empty ''7'')))]) = Inr 0"
    by (simp add: eval_table request_of_def)
  have s: "statusCode (new_response Map.empty) = 200" by (simp add: new_response_def)
  show ?thesis
    using destroy_always_ok [OF 1 s] destroy_always_ok [OF 7 s] 1 7 s
    by (simp add: request_of_def)
qed

text \<open>
  Claim C6. When \<^verbatim>\<open>findByPk\<close> answers \<^verbatim>\<open>null\<close>, the get-one handler and the update
  handler respond with status 404 and the body \<^verbatim>\<open>{"error":"Record not found"}\<close>. When it
  answers a record, the get-one handler responds with the default status 200 and the
  value of the hook on the record.
\<close>

theorem record_not_found:
  "(findByPk mdl (params_id req) True = Inr None \<longrightarrow>
      getOne mdl afterHook req res =
        (res\<lparr>statusCode := 404, body := Some (JObj [(''error'', JStr ''Record not found'')])\<rparr>, None)) \<and>
   (findByPk mdl (params_id req) False = Inr None \<longrightarrow>
      update mdl req res =
        (res\<lparr>statusCode := 404, body := Some (JObj [(''error'', JStr ''Record not found'')])\<rparr>, None)) \<and>
   (findByPk mdl (params_id req) True = Inr (Some record) \<and> afterHook record = Inr v \<and>
    statusCode res = 200 \<longrightarrow>
      getOne mdl afterHook req res = (res\<lparr>body := Some v\<rparr>, None) \<and>
      statusCode (fst (getOne mdl afterHook req res)) = 200)"
  by (simp add: getOne_def update_def res_json_def res_status_def not_found_def)

text \<open>On the users table, with a hook that wraps the record in an array.\<close>

theorem record_not_found_witness:
  "findByPk users_model ''7'' True = Inr None \<and>
   findByPk users_model ''7'' False = Inr None \<and>
   findByPk users_model ''2'' True = Inr (Some (JObj [(''id'', JStr ''2''), (''name'', JStr ''Bob'')])) \<and>
   statusCode (new_response Map.empty) = 200 \<and>
   getOne users_model (\<lambda>r. Inr (JArr [r])) (request_of Map.empty ''7'') (new_response Map.empty) =
     ((new_response Map.empty)
        \<lparr>statusCode := 404, body := Some (JObj [(''error'', JStr ''Record not found'')])\<rparr>, None) \<and>
   update users_model (request_of Map.empty ''7'') (new_response Map.empty) =
     ((new_response Map.empty)
        \<lparr>statusCode := 404, body := Some (JObj [(''error'', JStr ''Record not found'')])\<rparr>, None) \<and>
   getOne users_model (\<lambda>r. Inr (JArr [r])) (request_of Map.empty ''2'') (new_response Map.empty) =
     ((new_response Map.empty)
        \<lparr>body := Some (JArr [JObj [(''id'', JStr ''2''), (''name'', JStr ''Bob'')]])\<rparr>, None)"
proof -
  have 1: "findByPk users_model ''7'' True = Inr None" by (simp add: eval_table)
  have 2: "findByPk users_model ''7'' False = Inr None" by (simp add: eval_table)
  have 3: "findByPk users_model ''2'' True
      = Inr (Some (JObj [(''id'', JStr ''2''), (''name'', JStr ''Bob'')]))"
    by (simp add: eval_table)
  have s: "statusCode (new_response Map.empty) = 200" by (simp add: new_response_def)
  have p: "params_id (request_of Map.empty ''7'') = ''7''" "params_id (request_of Map.empty ''2'') = ''2''"
    by (simp_all add: request_of_def)
  show ?thesis
    using record_not_found [of users_model "request_of Map.empty ''7''" "\<lambda>r. Inr (JArr [r])"
        "new_response Map.empty"]
      record_not_found [of users_model "request_of Map.empty ''2''" "\<lambda>r. Inr (JArr [r])"
        "new_response Map.empty" "JObj [(''id'', JStr ''2''), (''name'', JStr ''Bob'')]"
        "JArr [JObj [(''id'', JStr ''2''), (''name'', JStr ''Bob'')]]"]
      1 2 3 s
    by (simp add: p)
qed

lemma filter_find_distinct:
  "distinct (map f xs) \<Longrightarrow>
   filter (\<lambda>r. f r = v) xs = (case find (\<lambda>r. f r = v) xs of None \<Rightarrow> [] | Some r \<Rightarrow> [r])"
proof (induction xs)
  case Nil
  then show ?case by simp
next
  case (Cons x xs)
  show ?case
  proof (cases "f x = v")
    case True
    from Cons.prems have "f x \<notin> f ` set xs" by simp
    with True have "\<forall>r\<in>set xs. f r \<noteq> v" by (metis image_eqI)
    then have "filter (\<lambda>r. f r = v) xs = []" by (simp add: filter_empty_conv)
    with True show ?thesis by simp
  next
    case False
    with Cons show ?thesis by simp
  qed
qed

lemma matches_id: "matches (JObj [(''id'', JStr ident)]) = (\<lambda>r. map_of r ''id'' = Some (JStr ident))"
  by (rule ext) (simp add: matches_def)

text \<open>
  Claim C10. Against a table with primary key \<open>pk\<close>, the update handler answers 404
  exactly when no row has the path parameter as its \<open>pk\<close>, and otherwise updates the rows
  whose attribute named \<^verbatim>\<open>id\<close> equals the path parameter. The rows checked and the rows
  updated agree on every table with unique keys if and only if \<open>pk\<close> is \<^verbatim>\<open>id\<close>.
\<close>

theorem update_targets:
  "update (table_model base pk rows) req res =
     (if checked_rows pk rows (params_id req) = [] then
        (res\<lparr>statusCode := 404, body := Some (JObj [(''error'', JStr ''Record not found'')])\<rparr>, None)
      else
        (res\<lparr>body := Some (JArr [JNum (int (length (updated_rows rows (params_id req)))),
                                  JArr (map (\<lambda>r. JObj (set_values (req_body req) r))
                                         (updated_rows rows (params_id req)))])\<rparr>, None)) \<and>
   ((\<forall>rows ident. distinct (map (\<lambda>r. map_of r pk) rows) \<longrightarrow>
        updated_rows rows ident = checked_rows pk rows ident) \<longleftrightarrow> pk = ''id'')"
proof (intro conjI iffI)
  show "update (table_model base pk rows) req res =
     (if checked_rows pk rows (params_id req) = [] then
        (res\<lparr>statusCode := 404, body := Some (JObj [(''error'', JStr ''Record not found'')])\<rparr>, None)
      else
        (res\<lparr>body := Some (JArr [JNum (int (length (updated_rows rows (params_id req)))),
                                  JArr (map (\<lambda>r. JObj (set_values (req_body req) r))
                                         (updated_rows rows (params_id req)))])\<rparr>, None))"
    by (simp add: update_def table_model_def table_findByPk_def table_update_def checked_rows_def
        updated_rows_def res_json_def res_status_def not_found_def Let_def
        split: option.splits)
next
  assume agree: "\<forall>rows ident. distinct (map (\<lambda>r. map_of r pk) rows) \<longrightarrow>
        updated_rows rows ident = checked_rows pk rows ident"
  show "pk = ''id''"
  proof (rule ccontr)
    assume "pk \<noteq> ''id''"
    then have "updated_rows [[(pk, JStr ''1'')]] ''1'' \<noteq> checked_rows pk [[(pk, JStr ''1'')]] ''1''"
      by (simp add: updated_rows_def checked_rows_def matches_id)
    moreover have "distinct (map (\<lambda>r. map_of r pk) [[(pk, JStr ''1'')]])" by simp
    ultimately show False using agree by blast
  qed
next
  assume "pk = ''id''"
  then show "\<forall>rows ident. distinct (map (\<lambda>r. map_of r pk) rows) \<longrightarrow>
        updated_rows rows ident = checked_rows pk rows ident"
    by (simp add: updated_rows_def checked_rows_def matches_id filter_find_distinct)
qed

text \<open>
  With the key \<^verbatim>\<open>id\<close> the two agree on the users table; with the key \<^verbatim>\<open>uuid\<close> the
  handler finds Ada and updates Bob.
\<close>

theorem update_targets_witness:
  "distinct (map (\<lambda>r. map_of r ''id'') users_table) \<and>
   updated_rows users_table ''2'' = [[(''id'', JStr ''2''), (''name'', JStr ''Bob'')]] \<and>
   checked_rows ''id'' users_table ''2'' = [[(''id'', JStr ''2''), (''name'', JStr ''Bob'')]] \<and>
   checked_rows ''uuid'' uuid_table ''1''
     = [[(''uuid'', JStr ''1''), (''id'', JStr ''2''), (''name'', JStr ''Ada'')]] \<and>
   update (table_model offline_model ''uuid'' uuid_table) (request_of Map.empty ''1'')
       (new_response Map.empty) =
     ((new_response Map.empty)
        \<lparr>body := Some (JArr [JNum 1,
           JArr [JObj [(''name'', JStr ''Eve''), (''uuid'', JStr ''2''), (''id'', JStr ''1'')]]])\<rparr>,
      None)"
proof -
  have d: "distinct (map (\<lambda>r. map_of r ''id'') users_table)"
    by (simp add: users_table_def)
  have c: "checked_rows ''id'' users_table ''2'' = [[(''id'', JStr ''2''), (''name'', JStr ''Bob'')]]"
    by (simp add: checked_rows_def users_table_def)
  have cu: "checked_rows ''uuid'' uuid_table ''1''
     = [[(''uuid'', JStr ''1''), (''id'', JStr ''2''), (''name'', JStr ''Ada'')]]"
    by (simp add: checked_rows_def uuid_table_def)
  have uu: "updated_rows uuid_table ''1''
     = [[(''uuid'', JStr ''2''), (''id'', JStr ''1''), (''name'', JStr ''Bob'')]]"
    by (simp add: updated_rows_def uuid_table_def matches_def)
  have agree: "\<forall>rows ident. distinct (map (\<lambda>r. map_of r ''id'') rows) \<longrightarrow>
        updated_rows rows ident = checked_rows ''id'' rows ident"
    using update_targets [of offline_model "''id''" users_table "request_of Map.empty ''2''"
        "new_response Map.empty"] by simp
  from agree d have "updated_rows users_table ''2'' = checked_rows ''id'' users_table ''2''"
    by blast
  then show ?thesis
    using update_targets [of offline_model "''uuid''" uuid_table "request_of Map.empty ''1''"
        "new_response Map.empty"] d c cu uu
    by (simp add: request_of_def set_values_def)
qed

end
